theory Spec2Isabelle
  imports Main "HOL-Library.Word"
begin

section \<open>The colour-change client \<^verbatim>\<open>admin_change_color.py\<close>\<close>

text \<open>
  The script is straight-line code: it parses two optional command-line options,
  resolves a colour and a base URL, draws a nonce, builds the request URL with an
  f-string, issues one GET and prints one report. Its inputs are the option values
  given on the command line, the state of the random generator, the file
  \<^verbatim>\<open>secrets.json\<close> and the network; all four are explicit arguments of the model.
  Its effects (opening the file, the GET, the print) are recorded as a list of events,
  an exception that ends the run as a value of \<open>error\<close>.
\<close>

subsection \<open>Exceptions\<close>

datatype error =
    UsageError           \<comment> \<open>\<^verbatim>\<open>parser.error\<close>: usage message, then \<^verbatim>\<open>sys.exit(2)\<close>\<close>
  | FileNotFoundError    \<comment> \<open>\<^verbatim>\<open>open\<close>: no such file\<close>
  | PermissionError      \<comment> \<open>\<^verbatim>\<open>open\<close>: the file cannot be read (stands for every other \<^verbatim>\<open>OSError\<close>)\<close>
  | JSONDecodeError      \<comment> \<open>\<^verbatim>\<open>json.load\<close>: the bytes are not JSON text (stands for every \<^verbatim>\<open>ValueError\<close> of it)\<close>
  | KeyError             \<comment> \<open>subscript of a dict without the key\<close>
  | TypeError            \<comment> \<open>subscript of a value that is not a dict by a string\<close>
  | ValueError           \<comment> \<open>\<^verbatim>\<open>int\<close> of a string that is no integer literal; empty \<^verbatim>\<open>randrange\<close>\<close>
  | RequestException     \<comment> \<open>\<^verbatim>\<open>requests.get\<close>: any transport failure\<close>

subsection \<open>\<^verbatim>\<open>str\<close> of an integer and \<^verbatim>\<open>int\<close> of a string\<close>

definition digit_char :: "nat \<Rightarrow> char" where
  "digit_char d = char_of (48 + d)"

fun str_nat :: "nat \<Rightarrow> string" where
  "str_nat n = (if n < 10 then [digit_char n] else str_nat (n div 10) @ [digit_char (n mod 10)])"

declare str_nat.simps [simp del]

text \<open>Python's \<^verbatim>\<open>str(i)\<close> for an integer: decimal digits, a minus sign when negative.\<close>

definition str_int :: "int \<Rightarrow> string" where
  "str_int i = (if i < 0 then CHR ''-'' # str_nat (nat (- i)) else str_nat (nat i))"

definition is_digit :: "char \<Rightarrow> bool" where
  "is_digit c = (48 \<le> (of_char c :: nat) \<and> (of_char c :: nat) \<le> 57)"

definition digit_val :: "char \<Rightarrow> nat" where
  "digit_val c = of_char c - 48"

text \<open>
  The ASCII characters \<^verbatim>\<open>int\<close> skips before and after a number: tab, LF, VT, FF, CR
  and space. (The separators FS, GS, RS and US, which \<^verbatim>\<open>str.strip\<close> removes, are not
  among them: \<^verbatim>\<open>int\<close> raises on them.)
\<close>

definition is_space :: "char \<Rightarrow> bool" where
  "is_space c = ((of_char c :: nat) \<in> {9, 10, 11, 12, 13, 32})"

text \<open>The string without the whitespace \<^verbatim>\<open>int\<close> skips at its two ends.\<close>

definition strip :: "string \<Rightarrow> string" where
  "strip s = rev (dropWhile is_space (rev (dropWhile is_space s)))"

text \<open>A digit string of an integer literal: digits, with single underscores between digits.\<close>

fun digits_ok :: "string \<Rightarrow> bool" where
  "digits_ok [] = False"
| "digits_ok [c] = is_digit c"
| "digits_ok (c # d # cs) =
     (if is_digit c then (if d = CHR ''_'' then digits_ok cs else digits_ok (d # cs)) else False)"

definition digits_value :: "string \<Rightarrow> nat" where
  "digits_value ds = foldl (\<lambda>acc c. 10 * acc + digit_val c) 0 (filter (\<lambda>c. c \<noteq> CHR ''_'') ds)"

text \<open>
  Python's \<^verbatim>\<open>int(s)\<close> for a string of ASCII characters: surrounding whitespace is
  dropped, one sign is allowed, then decimal digits (leading zeros allowed); anything
  else raises \<^verbatim>\<open>ValueError\<close>. The limit recent versions put on the number of digits
  is left out; the script calls \<^verbatim>\<open>int\<close> on strings of one digit only.
\<close>

definition py_int :: "string \<Rightarrow> error + int" where
  "py_int s =
     (let t = strip s;
          neg = (case t of [] \<Rightarrow> False | c # cs \<Rightarrow> c = CHR ''-'');
          ds = (case t of [] \<Rightarrow> [] | c # cs \<Rightarrow> if c = CHR ''-'' \<or> c = CHR ''+'' then cs else t)
      in if digits_ok ds
         then Inr (if neg then - int (digits_value ds) else int (digits_value ds))
         else Inl ValueError)"

subsection \<open>The random generator: \<^verbatim>\<open>random.randint\<close>\<close>

text \<open>
  The generator's state is the sequence of 32-bit words its core will produce next
  (\<^verbatim>\<open>genrand_uint32\<close>); a finite list stands for the draws supplied to a run, and a
  function that needs more words than are left has no result (\<open>None\<close>): the rejection
  loop of \<^verbatim>\<open>_randbelow\<close> has no bound of its own.
\<close>

type_synonym rand_state = "32 word list"

fun bit_length :: "nat \<Rightarrow> nat" where
  "bit_length n = (if n = 0 then 0 else Suc (bit_length (n div 2)))"

declare bit_length.simps [simp del]

text \<open>\<^verbatim>\<open>getrandbits(k)\<close> takes \<^verbatim>\<open>(k - 1) / 32 + 1\<close> words, least significant first,
  and keeps the top bits of the last one.\<close>

definition n_words :: "nat \<Rightarrow> nat" where
  "n_words k = (k - 1) div 32 + 1"

fun words_value :: "nat \<Rightarrow> 32 word list \<Rightarrow> nat" where
  "words_value k [] = 0"
| "words_value k (w # ws) =
     (if k < 32 then unat (drop_bit (32 - k) w) else unat w + 2 ^ 32 * words_value (k - 32) ws)"

definition getrandbits :: "nat \<Rightarrow> rand_state \<Rightarrow> (nat \<times> rand_state) option" where
  "getrandbits k rs =
     (if k = 0 then Some (0, rs)
      else if length rs < n_words k then None
      else Some (words_value k (take (n_words k) rs), drop (n_words k) rs))"

text \<open>
  \<^verbatim>\<open>r = getrandbits(k); while r >= n: r = getrandbits(k); return r\<close>.
  With \<open>k = 0\<close> no word is consumed and \<open>r = 0\<close> every time, so the loop never ends
  once entered.
\<close>

function randbelow_loop :: "nat \<Rightarrow> nat \<Rightarrow> rand_state \<Rightarrow> (nat \<times> rand_state) option" where
  "randbelow_loop n k rs =
     (case getrandbits k rs of
        None \<Rightarrow> None
      | Some (r, rs') \<Rightarrow>
          if r \<ge> n then (if k = 0 then None else randbelow_loop n k rs')
          else Some (r, rs'))"
  by pat_completeness auto
termination
  by (relation "measure (\<lambda>(n, k, rs). length rs)")
     (auto simp: getrandbits_def n_words_def split: if_splits)

declare randbelow_loop.simps [simp del]

definition randbelow :: "nat \<Rightarrow> rand_state \<Rightarrow> (nat \<times> rand_state) option" where
  "randbelow n rs = randbelow_loop n (bit_length n) rs"

text \<open>\<^verbatim>\<open>randrange(start, stop)\<close> with step 1, and \<^verbatim>\<open>randint(a, b) = randrange(a, b + 1)\<close>.\<close>

definition randrange :: "int \<Rightarrow> int \<Rightarrow> rand_state \<Rightarrow> ((error + int) \<times> rand_state) option" where
  "randrange start stop rs =
     (let width = stop - start in
      if width > 0
      then (case randbelow (nat width) rs of
              None \<Rightarrow> None
            | Some (r, rs') \<Rightarrow> Some (Inr (start + int r), rs'))
      else Some (Inl ValueError, rs))"

definition randint :: "int \<Rightarrow> int \<Rightarrow> rand_state \<Rightarrow> ((error + int) \<times> rand_state) option" where
  "randint a b rs = randrange a (b + 1) rs"

subsection \<open>The environment: command line, \<^verbatim>\<open>secrets.json\<close>, network\<close>

text \<open>
  \<open>namespace\<close> holds the values of the two options, \<open>None\<close> for an option that was
  not given (\<^verbatim>\<open>args.color\<close>, \<^verbatim>\<open>args.url\<close>). The command line is given to the model as
  the option values argparse extracts from it; splitting \<^verbatim>\<open>sys.argv\<close> into options and
  values is argparse's work and is not modelled.
\<close>

record namespace =
  color :: "string option"
  url :: "string option"

text \<open>
  A Python value that can end up in the variable \<^verbatim>\<open>url\<close>: a string, or any other
  object \<^verbatim>\<open>json.load\<close> builds (number, list, dict, \<^verbatim>\<open>True\<close>, \<^verbatim>\<open>None\<close>), which is
  carried by the text the f-string formats it to.
\<close>

datatype pyval = PyStr string | PyOther string

text \<open>What \<^verbatim>\<open>json.load\<close> returns: a dict (from a JSON object) or a value of another type.\<close>

datatype json_doc = JDict "string \<Rightarrow> pyval option" | JNotDict

text \<open>The file \<^verbatim>\<open>secrets.json\<close> of the working directory, as \<^verbatim>\<open>open\<close> and
  \<^verbatim>\<open>json.load\<close> find it.\<close>

datatype file_state = Missing | Unreadable | Malformed | Loaded json_doc

text \<open>\<^verbatim>\<open>requests.get\<close> raises, or returns a response with a status code and a body.\<close>

datatype http_result = Raises | Response nat string

text \<open>
  The events of a run, in order: a call of \<^verbatim>\<open>open\<close> (whether or not it succeeds), a call
  of \<^verbatim>\<open>requests.get\<close> (whether or not it returns), and the text a \<^verbatim>\<open>print\<close> writes.
\<close>

datatype event = Open string | Get string | Print string

record outcome =
  events :: "event list"
  raised :: "error option"

text \<open>The process's exit status: 2 from \<^verbatim>\<open>parser.error\<close>, 1 from an uncaught
  exception, 0 otherwise.\<close>

definition exit_code :: "outcome \<Rightarrow> nat" where
  "exit_code out = (case raised out of None \<Rightarrow> 0 | Some UsageError \<Rightarrow> 2 | Some _ \<Rightarrow> 1)"

definition requests_made :: "outcome \<Rightarrow> string list" where
  "requests_made out = concat (map (\<lambda>e. case e of Get q \<Rightarrow> [q] | _ \<Rightarrow> []) (events out))"

definition files_opened :: "outcome \<Rightarrow> string list" where
  "files_opened out = concat (map (\<lambda>e. case e of Open f \<Rightarrow> [f] | _ \<Rightarrow> []) (events out))"

definition stdout :: "outcome \<Rightarrow> string" where
  "stdout out = concat (map (\<lambda>e. case e of Print t \<Rightarrow> t | _ \<Rightarrow> []) (events out))"

text \<open>The number of lines in a text written to standard output: one per line feed.\<close>

definition line_count :: "string \<Rightarrow> nat" where
  "line_count t = length (filter (\<lambda>ch. ch = CHR 0x0A) t)"

text \<open>A network in which every request is answered with the same status and body.\<close>

definition respond :: "nat \<Rightarrow> string \<Rightarrow> string \<Rightarrow> http_result" where
  "respond status body q = Response status body"

subsection \<open>The script\<close>

definition N_COLOR :: nat where
  "N_COLOR = 10"

definition MAC :: string where
  "MAC = ''02:01:20:22:ADMIN''"

text \<open>\<^verbatim>\<open>choices=[str(num) for num in range(N_COLOR)]\<close>\<close>

definition choices :: "string list" where
  "choices = map (\<lambda>num. str_int (int num)) [0..<N_COLOR]"

text \<open>\<^verbatim>\<open>parser.parse_args()\<close>: a value of \<^verbatim>\<open>--color\<close> that is not one of the choices is a
  usage error; \<^verbatim>\<open>--url\<close> takes any string.\<close>

definition parse_args :: "namespace \<Rightarrow> error + namespace" where
  "parse_args argv =
     (case color argv of
        None \<Rightarrow> Inr argv
      | Some v \<Rightarrow> if v \<in> set choices then Inr argv else Inl UsageError)"

text \<open>Lines 17 to 20: the colour.\<close>

definition parse_color :: "namespace \<Rightarrow> rand_state \<Rightarrow> ((error + int) \<times> rand_state) option" where
  "parse_color args rs =
     (case color args of
        None \<Rightarrow> randint 0 (int N_COLOR - 1) rs
      | Some v \<Rightarrow> Some (py_int v, rs))"

text \<open>Lines 23 to 29: the base URL. Only the branch for an absent \<^verbatim>\<open>--url\<close> opens the file.\<close>

definition parse_url :: "namespace \<Rightarrow> file_state \<Rightarrow> event list \<times> (error + pyval)" where
  "parse_url args secrets =
     (case url args of
        None \<Rightarrow>
          ([Open ''secrets.json''],
           case secrets of
             Missing \<Rightarrow> Inl FileNotFoundError
           | Unreadable \<Rightarrow> Inl PermissionError
           | Malformed \<Rightarrow> Inl JSONDecodeError
           | Loaded JNotDict \<Rightarrow> Inl TypeError
           | Loaded (JDict json_object) \<Rightarrow>
               (case json_object ''webapp_url'' of
                  None \<Rightarrow> Inl KeyError
                | Some v \<Rightarrow> Inr v))
      | Some u \<Rightarrow> ([], Inr (PyStr u)))"

text \<open>How an f-string formats the value of \<^verbatim>\<open>url\<close>.\<close>

fun format :: "pyval \<Rightarrow> string" where
  "format (PyStr s) = s"
| "format (PyOther t) = t"

text \<open>Line 33: \<^verbatim>\<open>f"{url}?fc={color}.{rng}.{MAC}"\<close>\<close>

definition url_query :: "pyval \<Rightarrow> int \<Rightarrow> int \<Rightarrow> string" where
  "url_query u c rng = format u @ ''?fc='' @ str_int c @ ''.'' @ str_int rng @ ''.'' @ MAC"

text \<open>Line 37: the text \<^verbatim>\<open>print\<close> writes, the line feed included.\<close>

definition report :: "int \<Rightarrow> string \<Rightarrow> string" where
  "report c q = ''Admin changed color to '' @ str_int c @ '' using request '' @ q @ [CHR 0x0A]"

text \<open>
  Lines 14 to 32: the variables \<^verbatim>\<open>color\<close>, \<^verbatim>\<open>url\<close> and \<^verbatim>\<open>rng\<close> as they stand before the
  request, with the events so far; or the exception that ended the run before.
\<close>

definition resolve ::
  "namespace \<Rightarrow> rand_state \<Rightarrow> file_state \<Rightarrow> (event list \<times> (error + int \<times> pyval \<times> int)) option" where
  "resolve argv rs secrets =
     (case parse_args argv of
        Inl e \<Rightarrow> Some ([], Inl e)
      | Inr args \<Rightarrow>
          (case parse_color args rs of
             None \<Rightarrow> None
           | Some (Inl e, rs1) \<Rightarrow> Some ([], Inl e)
           | Some (Inr c, rs1) \<Rightarrow>
               (case parse_url args secrets of
                  (evs, Inl e) \<Rightarrow> Some (evs, Inl e)
                | (evs, Inr u) \<Rightarrow>
                    (case randint 1000 9999 rs1 of
                       None \<Rightarrow> None
                     | Some (Inl e, rs2) \<Rightarrow> Some (evs, Inl e)
                     | Some (Inr rng, rs2) \<Rightarrow> Some (evs, Inr (c, u, rng))))))"

text \<open>The whole run. \<open>None\<close>: the run does not end on the draws supplied.\<close>

definition main ::
  "namespace \<Rightarrow> rand_state \<Rightarrow> file_state \<Rightarrow> (string \<Rightarrow> http_result) \<Rightarrow> outcome option" where
  "main argv rs secrets requests_get =
     (case resolve argv rs secrets of
        None \<Rightarrow> None
      | Some (evs, Inl e) \<Rightarrow> Some \<lparr>events = evs, raised = Some e\<rparr>
      | Some (evs, Inr (c, u, rng)) \<Rightarrow>
          (let q = url_query u c rng in
           case requests_get q of
             Raises \<Rightarrow> Some \<lparr>events = evs @ [Get q], raised = Some RequestException\<rparr>
           | Response status body \<Rightarrow>
               Some \<lparr>events = evs @ [Get q, Print (report c q)], raised = None\<rparr>))"

section \<open>Evaluation lemmas\<close>

lemma str_nat_digit: "n < 10 \<Longrightarrow> str_nat n = [digit_char n]"
  by (subst str_nat.simps) simp

lemma str_nat_step: "10 \<le> n \<Longrightarrow> str_nat n = str_nat (n div 10) @ [digit_char (n mod 10)]"
  by (subst str_nat.simps) simp

lemma digit_char_numeral:
  "digit_char (numeral k) = char_of (48 + numeral k :: nat)"
  "digit_char 0 = CHR ''0''"
  "digit_char 1 = CHR ''1''"
  "digit_char (Suc 0) = CHR ''1''"
  by (simp_all add: digit_char_def char_of_def bit_Suc_0_iff)

lemmas str_eval =
  str_int_def str_nat_digit str_nat_step digit_char_numeral char_of_def bit_Suc_0_iff

lemmas py_int_eval =
  py_int_def strip_def is_space_def is_digit_def digits_value_def digit_val_def

lemma choices_eq:
  "choices = map (\<lambda>c. [c]) ''0123456789''"
  by (simp add: choices_def N_COLOR_def upt_rec str_eval digit_char_def)

lemma set_choices: "set choices = (\<lambda>n. str_int (int n)) ` {..<10}"
  by (auto simp: choices_def N_COLOR_def)

lemma py_int_digit: "n < 10 \<Longrightarrow> py_int (str_int (int n)) = Inr (int n)"
proof -
  assume "n < 10"
  then have "n \<in> {0, 1, 2, 3, 4, 5, 6, 7, 8, 9}"
    by auto
  then show ?thesis
    by (elim insertE emptyE) (simp_all add: py_int_eval str_eval)
qed

lemma choices_py_int:
  assumes "s \<in> set choices"
  shows "\<exists>n<10. s = str_int (int n) \<and> py_int s = Inr (int n)"
proof -
  from assms obtain n where "n < 10" and "s = str_int (int n)"
    by (auto simp: set_choices)
  then show ?thesis
    using py_int_digit by blast
qed

lemma parse_args_cases:
  "parse_args argv = Inr args \<longleftrightarrow>
     args = argv \<and> (\<forall>s. color argv = Some s \<longrightarrow> s \<in> set choices)"
  "parse_args argv = Inl e \<longleftrightarrow>
     e = UsageError \<and> (\<exists>s. color argv = Some s \<and> s \<notin> set choices)"
  by (auto simp: parse_args_def split: option.splits)

lemma main_usage_error:
  assumes "color argv = Some s" and "s \<notin> set choices"
  shows "main argv rs secrets requests_get = Some \<lparr>events = [], raised = Some UsageError\<rparr>"
  using assms by (simp add: main_def resolve_def parse_args_def)

section \<open>The colour option\<close>

text \<open>
  C2. Every value of \<^verbatim>\<open>--color\<close> that the parser accepts is the decimal notation
  \<^verbatim>\<open>str(n)\<close> of a number \<open>n\<close> below ten, and the colour the script resolves, both as
  the result of lines 17 to 20 and as the variable \<^verbatim>\<open>color\<close> before the request, is
  that number; no random word is consumed for it.
\<close>

theorem color_option_resolved:
  assumes "parse_args argv = Inr args" and "color argv = Some s"
  shows "\<exists>n<10. s = str_int (int n) \<and> parse_color args rs = Some (Inr (int n), rs) \<and>
           (\<forall>secrets evs c u k. resolve argv rs secrets = Some (evs, Inr (c, u, k)) \<longrightarrow> c = int n)"
proof -
  from assms have args: "args = argv" and "s \<in> set choices"
    by (simp_all add: parse_args_cases)
  then obtain n where n: "n < 10" "s = str_int (int n)" "py_int s = Inr (int n)"
    using choices_py_int by blast
  have pc: "parse_color args rs = Some (Inr (int n), rs)"
    using assms(2) n(3) by (simp add: parse_color_def args)
  have "c = int n" if "resolve argv rs secrets = Some (evs, Inr (c, u, k))" for secrets evs c u k
    using that assms(1) pc
    by (auto simp: resolve_def args split: sum.splits option.splits prod.splits)
  with n pc show ?thesis
    by blast
qed

theorem color_option_resolved_witness:
  "parse_args \<lparr>color = Some ''7'', url = None\<rparr> = Inr \<lparr>color = Some ''7'', url = None\<rparr> \<and>
   str_int 7 = ''7'' \<and>
   parse_color \<lparr>color = Some ''7'', url = None\<rparr> [] = Some (Inr 7, [])"
  using color_option_resolved [of "\<lparr>color = Some ''7'', url = None\<rparr>"
      "\<lparr>color = Some ''7'', url = None\<rparr>" "''7''" "[]"]
  by (simp add: parse_args_def choices_eq parse_color_def py_int_eval str_eval)

text \<open>
  C10. The parser accepts a value of \<^verbatim>\<open>--color\<close> exactly when it is one of the ten
  one-character strings \<^verbatim>\<open>0\<close> to \<^verbatim>\<open>9\<close>. Every other value, whatever
  \<^verbatim>\<open>int\<close> would make of it, ends the run with the usage error and exit status 2
  before any event: no file is opened, no request is made, nothing is printed.
\<close>

theorem accepted_color_strings:
  assumes "color argv = Some s"
  shows "(parse_args argv = Inr argv \<longleftrightarrow> s \<in> set (map (\<lambda>c. [c]) ''0123456789'')) \<and>
         (s \<notin> set (map (\<lambda>c. [c]) ''0123456789'') \<longrightarrow>
            parse_args argv = Inl UsageError \<and>
            (\<exists>out. main argv rs secrets requests_get = Some out \<and> events out = [] \<and>
               raised out = Some UsageError \<and> exit_code out = 2))"
proof -
  have acc: "parse_args argv = Inr argv \<longleftrightarrow> s \<in> set choices"
    using assms by (simp add: parse_args_cases)
  have rej: "parse_args argv = Inl UsageError" if "s \<notin> set choices"
    using assms that by (simp add: parse_args_cases)
  have run: "\<exists>out. main argv rs secrets requests_get = Some out \<and> events out = [] \<and>
      raised out = Some UsageError \<and> exit_code out = 2" if "s \<notin> set choices"
    using main_usage_error [OF assms that] by (simp add: exit_code_def)
  from acc rej run show ?thesis
    unfolding choices_eq by blast
qed

theorem accepted_color_strings_witness:
  "py_int ''03'' = Inr 3 \<and> py_int ''+3'' = Inr 3 \<and> py_int '' 3'' = Inr 3 \<and>
   parse_args \<lparr>color = Some ''03'', url = None\<rparr> = Inl UsageError \<and>
   main \<lparr>color = Some ''03'', url = None\<rparr> [] Missing (\<lambda>q. Raises) =
     Some \<lparr>events = [], raised = Some UsageError\<rparr> \<and>
   main \<lparr>color = Some ''+3'', url = None\<rparr> [] Missing (\<lambda>q. Raises) =
     Some \<lparr>events = [], raised = Some UsageError\<rparr> \<and>
   main \<lparr>color = Some '' 3'', url = None\<rparr> [] Missing (\<lambda>q. Raises) =
     Some \<lparr>events = [], raised = Some UsageError\<rparr> \<and>
   parse_args \<lparr>color = Some ''3'', url = None\<rparr> = Inr \<lparr>color = Some ''3'', url = None\<rparr>"
  using accepted_color_strings [of "\<lparr>color = Some ''03'', url = None\<rparr>" "''03''" "[]" Missing "\<lambda>q. Raises"]
    accepted_color_strings [of "\<lparr>color = Some ''+3'', url = None\<rparr>" "''+3''" "[]" Missing "\<lambda>q. Raises"]
    accepted_color_strings [of "\<lparr>color = Some '' 3'', url = None\<rparr>" "'' 3''" "[]" Missing "\<lambda>q. Raises"]
    accepted_color_strings [of "\<lparr>color = Some ''3'', url = None\<rparr>" "''3''" "[]" Missing "\<lambda>q. Raises"]
  by (auto simp: py_int_eval)

text \<open>
  C5. A value of \<^verbatim>\<open>--color\<close> that \<^verbatim>\<open>int\<close> does not read as an integer from 0 to 9
  (it raises, as on \<^verbatim>\<open>x\<close> or on a digit next to the separator FS, or gives a number
  outside the range, as on \<^verbatim>\<open>10\<close> and \<^verbatim>\<open>-1\<close>) ends the run at argument parsing: usage
  error, exit status 2, and no event at all, so no request.
\<close>

theorem invalid_color_rejected:
  assumes "color argv = Some s" and "\<not> (\<exists>n. 0 \<le> n \<and> n \<le> 9 \<and> py_int s = Inr n)"
  shows "\<exists>out. main argv rs secrets requests_get = Some out \<and> raised out = Some UsageError \<and>
           exit_code out = 2 \<and> requests_made out = [] \<and> events out = []"
proof -
  have "s \<notin> set choices"
  proof
    assume "s \<in> set choices"
    then obtain n where "n < 10" and "py_int s = Inr (int n)"
      using choices_py_int by blast
    with assms(2) show False
      by (auto dest: spec [of _ "int n"])
  qed
  from main_usage_error [OF assms(1) this] show ?thesis
    by (simp add: exit_code_def requests_made_def)
qed

theorem invalid_color_rejected_witness:
  "py_int ''10'' = Inr 10 \<and> py_int ''-1'' = Inr (- 1) \<and>
   py_int [CHR 0x1C, CHR ''3''] = Inl ValueError \<and> py_int [CHR ''3'', CHR 0x1F] = Inl ValueError \<and>
   (\<exists>out. main \<lparr>color = Some ''10'', url = None\<rparr> [] Missing (\<lambda>q. Raises) = Some out \<and>
      raised out = Some UsageError \<and> exit_code out = 2 \<and> requests_made out = [] \<and> events out = []) \<and>
   (\<exists>out. main \<lparr>color = Some ''-1'', url = Some ''http://h''\<rparr> [] Missing (\<lambda>q. Raises) = Some out \<and>
      raised out = Some UsageError \<and> exit_code out = 2 \<and> requests_made out = [] \<and> events out = []) \<and>
   (\<exists>out. main \<lparr>color = Some [CHR 0x1C, CHR ''3''], url = None\<rparr> [] Missing (\<lambda>q. Raises) = Some out \<and>
      raised out = Some UsageError \<and> exit_code out = 2 \<and> requests_made out = [] \<and> events out = []) \<and>
   (\<exists>out. main \<lparr>color = Some [CHR ''3'', CHR 0x1F], url = None\<rparr> [] Missing (\<lambda>q. Raises) = Some out \<and>
      raised out = Some UsageError \<and> exit_code out = 2 \<and> requests_made out = [] \<and> events out = [])"
  using invalid_color_rejected [of "\<lparr>color = Some ''10'', url = None\<rparr>" "''10''" "[]" Missing "\<lambda>q. Raises"]
    invalid_color_rejected [of "\<lparr>color = Some ''-1'', url = Some ''http://h''\<rparr>" "''-1''" "[]" Missing "\<lambda>q. Raises"]
    invalid_color_rejected [of "\<lparr>color = Some [CHR 0x1C, CHR ''3''], url = None\<rparr>" "[CHR 0x1C, CHR ''3'']"
      "[]" Missing "\<lambda>q. Raises"]
    invalid_color_rejected [of "\<lparr>color = Some [CHR ''3'', CHR 0x1F], url = None\<rparr>" "[CHR ''3'', CHR 0x1F]"
      "[]" Missing "\<lambda>q. Raises"]
  by (simp add: py_int_eval)

section \<open>The random draws\<close>

lemma bit_length_0: "bit_length 0 = 0"
  by (simp add: bit_length.simps)

lemma bit_length_pos: "0 < n \<Longrightarrow> bit_length n = Suc (bit_length (n div 2))"
  by (subst bit_length.simps) simp

lemma bit_length_10: "bit_length 10 = 4"
  by (simp add: bit_length_pos bit_length_0)

lemma bit_length_9000: "bit_length 9000 = 14"
  by (simp add: bit_length_pos bit_length_0)

lemma randbelow_loop_Nil: "0 < k \<Longrightarrow> randbelow_loop n k [] = None"
  by (subst randbelow_loop.simps) (simp add: getrandbits_def n_words_def)

lemma randbelow_loop_Cons:
  "0 < k \<Longrightarrow> k \<le> 32 \<Longrightarrow> randbelow_loop n k (w # ws) =
     (if n \<le> unat (drop_bit (32 - k) w) then randbelow_loop n k ws
      else Some (unat (drop_bit (32 - k) w), ws))"
  apply (subst randbelow_loop.simps)
  apply (cases "k = 32")
   apply (simp_all add: getrandbits_def n_words_def)
  done

text \<open>What the loop returns is below \<open>n\<close>.\<close>

lemma randbelow_loop_bound:
  "randbelow_loop n k rs = Some (r, rs') \<Longrightarrow> r < n"
proof (induction n k rs rule: randbelow_loop.induct)
  case (1 n k rs)
  show ?case
  proof (cases "getrandbits k rs")
    case None
    with "1.prems" show ?thesis
      by (subst (asm) randbelow_loop.simps) simp
  next
    case (Some p)
    obtain r0 rs0 where p: "p = (r0, rs0)"
      by (cases p)
    show ?thesis
    proof (cases "n \<le> r0")
      case True
      with "1.prems" Some p have "k \<noteq> 0" and "randbelow_loop n k rs0 = Some (r, rs')"
        by (subst (asm) randbelow_loop.simps, simp split: if_splits)+
      with "1.IH" [OF Some p [symmetric]] True show ?thesis
        by simp
    next
      case False
      with "1.prems" Some p show ?thesis
        by (subst (asm) randbelow_loop.simps) simp
    qed
  qed
qed

lemma randint_range:
  assumes "randint a b rs = Some (x, rs')" and "a \<le> b"
  shows "\<exists>v. x = Inr v \<and> a \<le> v \<and> v \<le> b"
proof -
  from assms obtain r where r: "randbelow (nat (b + 1 - a)) rs = Some (r, rs')" and x: "x = Inr (a + int r)"
    by (auto simp: randint_def randrange_def Let_def split: option.splits)
  from r have "r < nat (b + 1 - a)"
    unfolding randbelow_def by (rule randbelow_loop_bound)
  with x show ?thesis
    by auto
qed

lemma randint_color_Nil: "randint 0 9 [] = None"
  by (simp add: randint_def randrange_def randbelow_def bit_length_10 randbelow_loop_Nil)

lemma randint_color_Cons:
  "randint 0 9 (w # ws) =
     (if 10 \<le> unat (drop_bit 28 w) then randint 0 9 ws
      else Some (Inr (int (unat (drop_bit 28 w))), ws))"
  by (simp add: randint_def randrange_def randbelow_def bit_length_10 randbelow_loop_Cons)

lemma randint_nonce_Nil: "randint 1000 9999 [] = None"
  by (simp add: randint_def randrange_def randbelow_def bit_length_9000 randbelow_loop_Nil)

lemma randint_nonce_Cons:
  "randint 1000 9999 (w # ws) =
     (if 9000 \<le> unat (drop_bit 18 w) then randint 1000 9999 ws
      else Some (Inr (1000 + int (unat (drop_bit 18 w))), ws))"
  by (simp add: randint_def randrange_def randbelow_def bit_length_9000 randbelow_loop_Cons)

text \<open>The draws end as soon as one word is accepted.\<close>

lemma randint_color_returns:
  "\<exists>w\<in>set rs. unat (drop_bit 28 w) < 10 \<Longrightarrow> \<exists>c rs'. randint 0 9 rs = Some (Inr c, rs')"
  by (induction rs) (auto simp: randint_color_Cons)

lemma randint_nonce_returns:
  "\<exists>w\<in>set rs. unat (drop_bit 18 w) < 9000 \<Longrightarrow> \<exists>n rs'. randint 1000 9999 rs = Some (Inr n, rs')"
  by (induction rs) (auto simp: randint_nonce_Cons)

lemmas run_eval =
  main_def resolve_def parse_args_def parse_color_def parse_url_def choices_eq N_COLOR_def
  url_query_def report_def MAC_def randint_color_Cons randint_nonce_Cons randint_color_Nil
  randint_nonce_Nil

text \<open>The words whose top four bits are a given value: one sixteenth of all words.\<close>

lemma card_top_bits:
  assumes "v < 16"
  shows "card {w :: 32 word. unat (drop_bit 28 w) = v} = 2 ^ 28"
proof -
  let ?S = "{w :: 32 word. unat (drop_bit 28 w) = v}"
  have top: "unat (drop_bit 28 w) = unat w div 2 ^ 28" for w :: "32 word"
    by (simp add: drop_bit_eq_div unat_div)
  have "unat ` ?S = {v * 2 ^ 28 ..< (v + 1) * 2 ^ 28}"
  proof (intro equalityI subsetI)
    fix x assume "x \<in> unat ` ?S"
    then obtain w :: "32 word" where x: "x = unat w" and "unat w div 2 ^ 28 = v"
      by (auto simp: top)
    then show "x \<in> {v * 2 ^ 28 ..< (v + 1) * 2 ^ 28}"
      by auto
  next
    fix x :: nat assume x: "x \<in> {v * 2 ^ 28 ..< (v + 1) * 2 ^ 28}"
    with assms have "x < 2 ^ 32"
      by auto
    then have u: "unat (of_nat x :: 32 word) = x"
      by (simp add: unat_of_nat)
    from x have "x div 2 ^ 28 = v"
      by (auto simp: div_nat_eqI mult.commute)
    with u show "x \<in> unat ` ?S"
      by (auto simp: top image_iff intro!: exI [of _ "of_nat x :: 32 word"])
  qed
  moreover have "inj_on unat ?S"
    by (rule inj_onI) (simp add: word_unat_eq_iff)
  ultimately have "card ?S = card {v * 2 ^ 28 ..< (v + 1) * 2 ^ 28}"
    by (metis card_image)
  then show ?thesis
    by simp
qed

text \<open>
  Counting the states of \<open>L\<close> words: the words rejected by the loop for \<^verbatim>\<open>randint(0, 9)\<close>
  are six sixteenths of all, and the states that end the draw are shared evenly
  between the ten values.
\<close>

lemma top_bits_less: "unat (drop_bit 28 (w :: 32 word)) < 16"
proof -
  have "unat w < 2 ^ 32"
    using unsigned_less [of w] by simp
  then show ?thesis
    by (simp add: drop_bit_eq_div unat_div)
qed

lemma card_rejected: "card {w :: 32 word. 10 \<le> unat (drop_bit 28 w)} = 6 * 2 ^ 28"
proof -
  let ?A = "\<lambda>v. {w :: 32 word. unat (drop_bit 28 w) = v}"
  have "{w :: 32 word. 10 \<le> unat (drop_bit 28 w)} = (\<Union>v\<in>{10..<16}. ?A v)"
    using top_bits_less by (auto simp: not_less)
  moreover have "card (\<Union>v\<in>{10..<16}. ?A v) = (\<Sum>v\<in>{10..<16}. card (?A v))"
    by (rule card_UN_disjoint) auto
  moreover have "(\<Sum>v\<in>{10..<16}. card (?A v)) = (\<Sum>v\<in>{10..<16::nat}. 2 ^ 28)"
    by (rule sum.cong) (simp_all add: card_top_bits)
  ultimately show ?thesis
    by simp
qed

lemma card_color_states:
  assumes "v < 10"
  shows "10 * card {rs. length rs = L \<and> (\<exists>rs'. randint 0 9 rs = Some (Inr (int v), rs'))} +
           (6 * 2 ^ 28) ^ L = (2 ^ 32) ^ L"
proof (induction L)
  case 0
  show ?case
    by (simp add: randint_color_Nil)
next
  case (Suc L)
  let ?S = "\<lambda>L. {rs. length rs = L \<and> (\<exists>rs'. randint 0 9 rs = Some (Inr (int v), rs'))}"
  let ?A = "{w :: 32 word. unat (drop_bit 28 w) = v}"
  let ?R = "{w :: 32 word. 10 \<le> unat (drop_bit 28 w)}"
  let ?all = "{ws :: 32 word list. length ws = L}"
  let ?cons = "\<lambda>(w, ws). w # ws"
  have all: "?all = {ws. set ws \<subseteq> UNIV \<and> length ws = L}"
    by simp
  have fin_all: "finite ?all"
    unfolding all by (rule finite_lists_length_eq) simp
  have card_all: "card ?all = (2 ^ 32) ^ L"
    using card_lists_length_eq [of "UNIV :: 32 word set" L] by (simp add: card_word)
  have fin_S: "finite (?S L)"
    by (rule finite_subset [OF _ fin_all]) auto
  have split: "?S (Suc L) = ?cons ` (?A \<times> ?all) \<union> ?cons ` (?R \<times> ?S L)"
  proof (intro equalityI subsetI)
    fix rs assume "rs \<in> ?S (Suc L)"
    then obtain w ws rs' where rs: "rs = w # ws" "length ws = L"
      and r: "randint 0 9 (w # ws) = Some (Inr (int v), rs')"
      by (auto simp: length_Suc_conv)
    show "rs \<in> ?cons ` (?A \<times> ?all) \<union> ?cons ` (?R \<times> ?S L)"
    proof (cases "10 \<le> unat (drop_bit 28 w)")
      case True
      with r have "randint 0 9 ws = Some (Inr (int v), rs')"
        by (simp add: randint_color_Cons)
      with True rs show ?thesis
        by auto
    next
      case False
      with r have "unat (drop_bit 28 w) = v"
        by (simp add: randint_color_Cons del: of_nat_unat)
      with rs show ?thesis
        by auto
    qed
  next
    fix rs assume "rs \<in> ?cons ` (?A \<times> ?all) \<union> ?cons ` (?R \<times> ?S L)"
    then show "rs \<in> ?S (Suc L)"
      using assms by (auto simp: randint_color_Cons simp del: of_nat_unat)
  qed
  have inj: "inj_on ?cons X" for X :: "(32 word \<times> 32 word list) set"
    by (auto simp: inj_on_def)
  have disj: "?cons ` (?A \<times> ?all) \<inter> ?cons ` (?R \<times> ?S L) = {}"
    using assms by auto
  have "card (?S (Suc L)) = card (?cons ` (?A \<times> ?all)) + card (?cons ` (?R \<times> ?S L))"
    unfolding split using fin_all fin_S disj by (intro card_Un_disjoint) auto
  also have "\<dots> = card ?A * card ?all + card ?R * card (?S L)"
    by (simp add: card_image [OF inj] card_cartesian_product)
  also have "\<dots> = 2 ^ 28 * (2 ^ 32) ^ L + 6 * 2 ^ 28 * card (?S L)"
    using assms by (simp only: card_top_bits card_rejected card_all)
  finally have "10 * card (?S (Suc L)) + (6 * 2 ^ 28) ^ Suc L =
      10 * 2 ^ 28 * (2 ^ 32) ^ L + 6 * 2 ^ 28 * (10 * card (?S L) + (6 * 2 ^ 28) ^ L)"
    by (simp add: algebra_simps)
  also have "\<dots> = (2 ^ 32) ^ Suc L"
    unfolding Suc.IH by simp
  finally show ?case .
qed

text \<open>
  C3. Whenever the script reaches the request, whatever options were given, the nonce
  \<^verbatim>\<open>rng\<close> lies between 1000 and 9999, and it is the result of a draw of its own,
  \<^verbatim>\<open>randint(1000, 9999)\<close>, made on the generator as the colour's resolution left it
  (untouched when \<^verbatim>\<open>--color\<close> was given).
\<close>

theorem nonce_range_fresh:
  assumes "resolve argv rs secrets = Some (evs, Inr (c, u, n))"
  shows "1000 \<le> n \<and> n \<le> 9999 \<and>
         (\<exists>rs1 rs2. parse_color argv rs = Some (Inr c, rs1) \<and>
            randint 1000 9999 rs1 = Some (Inr n, rs2) \<and> (color argv \<noteq> None \<longrightarrow> rs1 = rs))"
proof -
  from assms have args: "parse_args argv = Inr argv"
    by (auto simp: resolve_def parse_args_cases split: sum.splits)
  with assms obtain rs1 rs2 where
    pc: "parse_color argv rs = Some (Inr c, rs1)" and
    draw: "randint 1000 9999 rs1 = Some (Inr n, rs2)"
    by (auto simp: resolve_def split: sum.splits option.splits prod.splits)
  from randint_range [OF draw] have "1000 \<le> n \<and> n \<le> 9999"
    by simp
  moreover from pc have "color argv \<noteq> None \<longrightarrow> rs1 = rs"
    by (auto simp: parse_color_def)
  ultimately show ?thesis
    using pc draw by blast
qed

theorem nonce_range_fresh_witness:
  "resolve \<lparr>color = None, url = Some ''http://h''\<rparr> [0xF0000000, 0x30000000, 0x50000000] Missing =
     Some ([], Inr (3, PyStr ''http://h'', 6120)) \<and>
   parse_color \<lparr>color = None, url = Some ''http://h''\<rparr> [0xF0000000, 0x30000000, 0x50000000] =
     Some (Inr 3, [0x50000000]) \<and>
   randint 1000 9999 [0x50000000] = Some (Inr 6120, []) \<and>
   (1000 :: int) \<le> 6120 \<and> (6120 :: int) \<le> 9999"
  using nonce_range_fresh [of "\<lparr>color = None, url = Some ''http://h''\<rparr>"
      "[0xF0000000, 0x30000000, 0x50000000]" Missing "[]" 3 "PyStr ''http://h''" 6120]
  by (simp add: run_eval)

text \<open>
  C4. Without \<^verbatim>\<open>--color\<close> the colour is exactly what \<^verbatim>\<open>randint(0, 9)\<close> draws: the
  top four bits of the first word of the generator whose top four bits are below ten,
  taken unchanged. It lies between 0 and 9; each of the ten values is drawn by a
  state of one word, and by the same number of them, \<open>2 ^ 28\<close> of the \<open>2 ^ 32\<close>.
  Of the \<open>(2 ^ 32) ^ L\<close> states of \<open>L\<close> words, \<open>(6 * 2 ^ 28) ^ L\<close> leave the draw
  unfinished and the others are shared evenly between the ten colours: equally likely
  states give equally likely colours.
\<close>

theorem random_color_uniform:
  assumes "color argv = None"
  shows "parse_color argv rs = randint 0 9 rs \<and>
         parse_color argv (w # ws) =
           (if 10 \<le> unat (drop_bit 28 w) then parse_color argv ws
            else Some (Inr (int (unat (drop_bit 28 w))), ws)) \<and>
         (\<forall>x rs'. parse_color argv rs = Some (x, rs') \<longrightarrow> (\<exists>c. x = Inr c \<and> 0 \<le> c \<and> c \<le> 9)) \<and>
         (\<forall>v. 0 \<le> v \<and> v \<le> 9 \<longrightarrow>
            (\<exists>w0. parse_color argv [w0] = Some (Inr v, [])) \<and>
            card {w0. parse_color argv [w0] = Some (Inr v, [])} = 2 ^ 28 \<and>
            10 * card {rs0. length rs0 = L \<and> (\<exists>rs'. parse_color argv rs0 = Some (Inr v, rs'))} +
              (6 * 2 ^ 28) ^ L = (2 ^ 32) ^ L)"
proof -
  have eq: "parse_color argv rs0 = randint 0 9 rs0" for rs0
    using assms by (simp add: parse_color_def N_COLOR_def)
  have range: "\<exists>c. x = Inr c \<and> 0 \<le> c \<and> c \<le> 9" if "parse_color argv rs = Some (x, rs')" for x rs'
    using randint_range [of 0 9 rs x rs'] that by (simp add: eq)
  have count: "(\<exists>w0. parse_color argv [w0] = Some (Inr v, [])) \<and>
      card {w0. parse_color argv [w0] = Some (Inr v, [])} = 2 ^ 28 \<and>
      10 * card {rs0. length rs0 = L \<and> (\<exists>rs'. parse_color argv rs0 = Some (Inr v, rs'))} +
        (6 * 2 ^ 28) ^ L = (2 ^ 32) ^ L" if v: "0 \<le> v \<and> v \<le> 9" for v
  proof -
    from v have "nat v < 10" and "int (nat v) = v"
      by linarith+
    with card_color_states [of "nat v" L]
    have states: "10 * card {rs0. length rs0 = L \<and> (\<exists>rs'. parse_color argv rs0 = Some (Inr v, rs'))} +
        (6 * 2 ^ 28) ^ L = (2 ^ 32) ^ L"
      by (simp add: eq)
    have set_eq: "{w0. parse_color argv [w0] = Some (Inr v, [])} =
        {w0 :: 32 word. unat (drop_bit 28 w0) = nat v}"
      using v by (auto simp: eq randint_color_Cons randint_color_Nil uint_nat simp del: of_nat_unat)
    from v have "nat v < 16"
      by linarith
    then have c: "card {w0. parse_color argv [w0] = Some (Inr v, [])} = 2 ^ 28"
      unfolding set_eq by (rule card_top_bits)
    then have "card {w0. parse_color argv [w0] = Some (Inr v, [])} \<noteq> 0"
      by simp
    then have "{w0. parse_color argv [w0] = Some (Inr v, [])} \<noteq> {}"
      by (metis card.empty)
    with c states show ?thesis
      by blast
  qed
  show ?thesis
    using eq range count by (simp add: randint_color_Cons)
qed

theorem random_color_uniform_witness:
  "parse_color \<lparr>color = None, url = None\<rparr> [0xF0000000, 0x70000000, 1] = Some (Inr 7, [1]) \<and>
   randint 0 9 [0xF0000000, 0x70000000, 1] = Some (Inr 7, [1]) \<and>
   card {w0. parse_color \<lparr>color = None, url = None\<rparr> [w0] = Some (Inr 7, [])} = 2 ^ 28"
  using random_color_uniform [of "\<lparr>color = None, url = None\<rparr>" "[0xF0000000, 0x70000000, 1]" 0 "[]" 1]
  by (simp add: randint_color_Cons)

section \<open>The base URL\<close>

lemma parse_url_file:
  "url args = None \<Longrightarrow> parse_url args secrets = (evs, Inr v) \<longleftrightarrow>
     evs = [Open ''secrets.json''] \<and> (\<exists>d. secrets = Loaded (JDict d) \<and> d ''webapp_url'' = Some v)"
  by (auto simp: parse_url_def split: file_state.splits json_doc.splits option.splits)

lemma parse_url_file_error:
  assumes "url args = None" and "\<forall>d. secrets = Loaded (JDict d) \<longrightarrow> d ''webapp_url'' = None"
  shows "\<exists>e. parse_url args secrets = ([Open ''secrets.json''], Inl e) \<and>
           e \<in> {FileNotFoundError, PermissionError, JSONDecodeError, TypeError, KeyError}"
  using assms by (auto simp: parse_url_def split: file_state.splits json_doc.splits option.splits)

lemma parse_url_option: "url args = Some u \<Longrightarrow> parse_url args secrets = ([], Inr (PyStr u))"
  by (simp add: parse_url_def)

text \<open>The namespace \<^verbatim>\<open>parse_args\<close> returns is the one it was given.\<close>

lemma resolve_unfold:
  "resolve argv rs secrets =
     (if \<exists>s. color argv = Some s \<and> s \<notin> set choices then Some ([], Inl UsageError)
      else case parse_color argv rs of
             None \<Rightarrow> None
           | Some (Inl e, rs1) \<Rightarrow> Some ([], Inl e)
           | Some (Inr c, rs1) \<Rightarrow>
               (case parse_url argv secrets of
                  (evs, Inl e) \<Rightarrow> Some (evs, Inl e)
                | (evs, Inr u) \<Rightarrow>
                    (case randint 1000 9999 rs1 of
                       None \<Rightarrow> None
                     | Some (Inl e, rs2) \<Rightarrow> Some (evs, Inl e)
                     | Some (Inr rng, rs2) \<Rightarrow> Some (evs, Inr (c, u, rng)))))"
proof (cases "parse_args argv")
  case (Inl e)
  then have "e = UsageError" and "\<exists>s. color argv = Some s \<and> s \<notin> set choices"
    by (simp_all add: parse_args_cases)
  with Inl show ?thesis
    by (simp add: resolve_def)
next
  case (Inr args)
  then have "args = argv" and "\<not> (\<exists>s. color argv = Some s \<and> s \<notin> set choices)"
    by (auto simp: parse_args_cases)
  with Inr show ?thesis
    by (auto simp: resolve_def)
qed

lemma resolve_Inr:
  "resolve argv rs secrets = Some (evs, Inr (c, u, n)) \<longleftrightarrow>
     parse_args argv = Inr argv \<and>
     (\<exists>rs1 rs2. parse_color argv rs = Some (Inr c, rs1) \<and> parse_url argv secrets = (evs, Inr u) \<and>
        randint 1000 9999 rs1 = Some (Inr n, rs2))"
  by (auto simp: resolve_def parse_args_cases split: sum.splits option.splits prod.splits)

lemma parse_color_option:
  assumes "parse_args argv = Inr argv" and "color argv = Some s"
  shows "\<exists>n<10. parse_color argv rs = Some (Inr (int n), rs)"
proof -
  from assms have "s \<in> set choices"
    by (simp add: parse_args_cases)
  then obtain n where "n < 10" and "py_int s = Inr (int n)"
    using choices_py_int by blast
  with assms(2) show ?thesis
    by (auto simp: parse_color_def)
qed

text \<open>
  C6. Without \<^verbatim>\<open>--url\<close>, when \<^verbatim>\<open>secrets.json\<close> loads as a dict with the key
  \<^verbatim>\<open>webapp_url\<close>, lines 23 to 29 open that file and give the key's value as the base
  URL, and the variable \<^verbatim>\<open>url\<close> before the request is that value.
\<close>

theorem url_from_secrets:
  assumes "url argv = None" and "secrets = Loaded (JDict json_object)"
    and "json_object ''webapp_url'' = Some v"
  shows "parse_url argv secrets = ([Open ''secrets.json''], Inr v) \<and>
         (\<forall>rs evs c u n. resolve argv rs secrets = Some (evs, Inr (c, u, n)) \<longrightarrow>
            u = v \<and> evs = [Open ''secrets.json''])"
proof -
  have pu: "parse_url argv secrets = ([Open ''secrets.json''], Inr v)"
    using assms by (simp add: parse_url_def)
  then show ?thesis
    by (auto simp: resolve_Inr)
qed

theorem url_from_secrets_witness:
  "parse_url \<lparr>color = None, url = None\<rparr> (Loaded (JDict [''webapp_url'' \<mapsto> PyStr ''https://foo''])) =
     ([Open ''secrets.json''], Inr (PyStr ''https://foo'')) \<and>
   resolve \<lparr>color = Some ''3'', url = None\<rparr> [0x50000000]
       (Loaded (JDict [''webapp_url'' \<mapsto> PyStr ''https://foo''])) =
     Some ([Open ''secrets.json''], Inr (3, PyStr ''https://foo'', 6120))"
  using url_from_secrets [of "\<lparr>color = None, url = None\<rparr>"
      "Loaded (JDict [''webapp_url'' \<mapsto> PyStr ''https://foo''])"
      "[''webapp_url'' \<mapsto> PyStr ''https://foo'']" "PyStr ''https://foo''"]
  by (simp add: run_eval py_int_eval)

text \<open>
  C7. Without \<^verbatim>\<open>--url\<close>, when \<^verbatim>\<open>secrets.json\<close> is missing, unreadable, not JSON,
  not a dict or a dict without the key \<^verbatim>\<open>webapp_url\<close>, a run whose colour draw (if
  any) returns ends with an exception and a non-zero exit status, and makes no
  request. When the arguments parse, the exception is the one of the file.
\<close>

theorem bad_secrets_fails:
  assumes "url argv = None"
    and "\<forall>d. secrets = Loaded (JDict d) \<longrightarrow> d ''webapp_url'' = None"
    and "color argv = None \<longrightarrow> randint 0 9 rs \<noteq> None"
  shows "\<exists>out e. main argv rs secrets requests_get = Some out \<and> raised out = Some e \<and>
           exit_code out \<noteq> 0 \<and> requests_made out = [] \<and>
           (parse_args argv = Inr argv \<longrightarrow>
              files_opened out = [''secrets.json''] \<and>
              e \<in> {FileNotFoundError, PermissionError, JSONDecodeError, TypeError, KeyError})"
proof (cases "parse_args argv")
  case (Inl e)
  then obtain s where "color argv = Some s" and "s \<notin> set choices"
    by (auto simp: parse_args_cases)
  from main_usage_error [OF this] Inl show ?thesis
    by (simp add: exit_code_def requests_made_def)
next
  case (Inr args)
  then have args: "parse_args argv = Inr argv"
    by (simp add: parse_args_cases)
  have "\<exists>c rs1. parse_color argv rs = Some (Inr c, rs1)"
  proof (cases "color argv")
    case None
    with assms(3) obtain x rs1 where "randint 0 9 rs = Some (x, rs1)"
      by auto
    with randint_range [OF this] None show ?thesis
      by (auto simp: parse_color_def N_COLOR_def)
  next
    case (Some s)
    from parse_color_option [OF args this] show ?thesis
      by blast
  qed
  then obtain c rs1 where pc: "parse_color argv rs = Some (Inr c, rs1)"
    by blast
  from parse_url_file_error [OF assms(1,2)] obtain e where
    pu: "parse_url argv secrets = ([Open ''secrets.json''], Inl e)" and
    e: "e \<in> {FileNotFoundError, PermissionError, JSONDecodeError, TypeError, KeyError}"
    by blast
  have "main argv rs secrets requests_get = Some \<lparr>events = [Open ''secrets.json''], raised = Some e\<rparr>"
    by (simp add: main_def resolve_def args pc pu)
  moreover from e have "exit_code \<lparr>events = [Open ''secrets.json''], raised = Some e\<rparr> \<noteq> 0"
    by (auto simp: exit_code_def)
  ultimately show ?thesis
    using e by (auto simp: requests_made_def files_opened_def)
qed

theorem bad_secrets_fails_witness:
  "main \<lparr>color = None, url = None\<rparr> [0x30000000] Missing (\<lambda>q. Response 200 []) =
     Some \<lparr>events = [Open ''secrets.json''], raised = Some FileNotFoundError\<rparr> \<and>
   main \<lparr>color = Some ''3'', url = None\<rparr> [] (Loaded (JDict Map.empty)) (\<lambda>q. Response 200 []) =
     Some \<lparr>events = [Open ''secrets.json''], raised = Some KeyError\<rparr> \<and>
   exit_code \<lparr>events = [Open ''secrets.json''], raised = Some KeyError\<rparr> = 1"
  using bad_secrets_fails [of "\<lparr>color = None, url = None\<rparr>" Missing "[0x30000000]" "\<lambda>q. Response 200 []"]
    bad_secrets_fails [of "\<lparr>color = Some ''3'', url = None\<rparr>" "Loaded (JDict Map.empty)" "[]" "\<lambda>q. Response 200 []"]
  by (simp add: run_eval py_int_eval exit_code_def)

text \<open>
  C8. With \<^verbatim>\<open>--url\<close> the base URL is the given string itself, and the file plays no
  part: the run opens no file, and two runs that differ only in \<^verbatim>\<open>secrets.json\<close>
  have the same outcome, the same request included.
\<close>

theorem url_option_verbatim:
  assumes "url argv = Some u"
  shows "parse_url argv secrets = ([], Inr (PyStr u)) \<and> format (PyStr u) = u \<and>
         main argv rs secrets requests_get = main argv rs secrets' requests_get \<and>
         (\<forall>evs c v n. resolve argv rs secrets = Some (evs, Inr (c, v, n)) \<longrightarrow> v = PyStr u) \<and>
         (\<forall>out. main argv rs secrets requests_get = Some out \<longrightarrow> files_opened out = [])"
proof -
  have pu: "parse_url argv s = ([], Inr (PyStr u))" for s
    using assms by (rule parse_url_option)
  have same: "resolve argv rs secrets = resolve argv rs secrets'"
    by (auto simp: resolve_unfold pu split: option.splits sum.splits prod.splits)
  have opened: "files_opened out = []" if "main argv rs secrets requests_get = Some out" for out
    using that
    by (auto simp: main_def resolve_unfold pu files_opened_def Let_def
        split: sum.splits option.splits prod.splits http_result.splits if_splits)
  show ?thesis
    using pu opened by (auto simp: main_def same resolve_Inr)
qed

theorem url_option_verbatim_witness:
  "main \<lparr>color = Some ''3'', url = Some ''not a url''\<rparr> [0x30000000] Missing (\<lambda>q. Response 200 []) =
   main \<lparr>color = Some ''3'', url = Some ''not a url''\<rparr> [0x30000000]
     (Loaded (JDict [''webapp_url'' \<mapsto> PyStr ''https://foo''])) (\<lambda>q. Response 200 []) \<and>
   requests_made (the (main \<lparr>color = Some ''3'', url = Some ''not a url''\<rparr> [0x30000000] Missing
     (\<lambda>q. Response 200 []))) = [''not a url?fc=3.4072.02:01:20:22:ADMIN'']"
  using url_option_verbatim [of "\<lparr>color = Some ''3'', url = Some ''not a url''\<rparr>" "''not a url''"
      Missing "[0x30000000]" "\<lambda>q. Response 200 []"
      "Loaded (JDict [''webapp_url'' \<mapsto> PyStr ''https://foo''])"]
  by (simp add: run_eval py_int_eval str_eval requests_made_def)

section \<open>The request and the report\<close>

lemma parse_url_events:
  "parse_url args secrets = (evs, x) \<Longrightarrow> evs = [] \<or> evs = [Open ''secrets.json'']"
  by (auto simp: parse_url_def split: option.splits)

lemma main_resolved:
  assumes "resolve argv rs secrets = Some (evs, Inr (c, u, n))"
  shows "main argv rs secrets requests_get =
           (case requests_get (url_query u c n) of
              Raises \<Rightarrow> Some \<lparr>events = evs @ [Get (url_query u c n)], raised = Some RequestException\<rparr>
            | Response status body \<Rightarrow>
                Some \<lparr>events = evs @ [Get (url_query u c n), Print (report c (url_query u c n))],
                  raised = None\<rparr>)"
  using assms by (simp add: main_def Let_def)

lemma resolve_events:
  assumes "resolve argv rs secrets = Some (evs, Inr (c, u, n))"
  shows "evs = [] \<or> evs = [Open ''secrets.json'']"
  using assms by (auto simp: resolve_Inr dest: parse_url_events)

text \<open>
  C1. Whenever the script reaches the request with base URL \<open>u\<close>, colour \<open>c\<close> and
  nonce \<open>n\<close>, it makes exactly one request, and its target is the text of \<open>u\<close>,
  \<^verbatim>\<open>?fc=\<close>, \<open>c\<close> in decimal, a dot, \<open>n\<close> in decimal, a dot and
  \<^verbatim>\<open>02:01:20:22:ADMIN\<close>. With \<^verbatim>\<open>--url https://example.com/x --color 3\<close> the target is
  \<^verbatim>\<open>https://example.com/x?fc=3.<n>.02:01:20:22:ADMIN\<close> for the nonce \<open>n\<close> drawn.
\<close>

theorem request_target:
  "(resolve argv rs secrets = Some (evs, Inr (c, u, n)) \<longrightarrow>
      (\<exists>out. main argv rs secrets requests_get = Some out \<and>
         requests_made out =
           [format u @ ''?fc='' @ str_int c @ ''.'' @ str_int n @ ''.'' @ ''02:01:20:22:ADMIN''])) \<and>
   (randint 1000 9999 rs0 = Some (Inr n0, rs0') \<longrightarrow>
      (\<exists>out. main \<lparr>color = Some ''3'', url = Some ''https://example.com/x''\<rparr> rs0 secrets0 requests_get0 =
           Some out \<and>
         requests_made out = [''https://example.com/x?fc=3.'' @ str_int n0 @ ''.02:01:20:22:ADMIN'']))"
proof (intro conjI impI)
  assume r: "resolve argv rs secrets = Some (evs, Inr (c, u, n))"
  show "\<exists>out. main argv rs secrets requests_get = Some out \<and>
      requests_made out =
        [format u @ ''?fc='' @ str_int c @ ''.'' @ str_int n @ ''.'' @ ''02:01:20:22:ADMIN'']"
    using main_resolved [OF r, of requests_get] resolve_events [OF r]
    by (auto simp: requests_made_def url_query_def MAC_def split: http_result.splits)
next
  assume d: "randint 1000 9999 rs0 = Some (Inr n0, rs0')"
  let ?argv = "\<lparr>color = Some ''3'', url = Some ''https://example.com/x''\<rparr>"
  have r: "resolve ?argv rs0 secrets0 = Some ([], Inr (3, PyStr ''https://example.com/x'', n0))"
    using d by (simp add: resolve_unfold choices_eq parse_color_def parse_url_def py_int_eval)
  show "\<exists>out. main ?argv rs0 secrets0 requests_get0 = Some out \<and>
      requests_made out = [''https://example.com/x?fc=3.'' @ str_int n0 @ ''.02:01:20:22:ADMIN'']"
    using main_resolved [OF r, of requests_get0]
    by (auto simp: requests_made_def url_query_def MAC_def str_eval split: http_result.splits)
qed

theorem request_target_witness:
  "resolve \<lparr>color = None, url = None\<rparr> [0x70000000, 0x50000000]
       (Loaded (JDict [''webapp_url'' \<mapsto> PyStr ''https://foo''])) =
     Some ([Open ''secrets.json''], Inr (7, PyStr ''https://foo'', 6120)) \<and>
   requests_made (the (main \<lparr>color = None, url = None\<rparr> [0x70000000, 0x50000000]
       (Loaded (JDict [''webapp_url'' \<mapsto> PyStr ''https://foo''])) (respond 200 []))) =
     [''https://foo?fc=7.6120.02:01:20:22:ADMIN''] \<and>
   randint 1000 9999 [0x30000000] = Some (Inr 4072, []) \<and>
   requests_made (the (main \<lparr>color = Some ''3'', url = Some ''https://example.com/x''\<rparr>
       [0x30000000] Missing (respond 404 []))) =
     [''https://example.com/x?fc=3.4072.02:01:20:22:ADMIN'']"
  using request_target [of "\<lparr>color = None, url = None\<rparr>" "[0x70000000, 0x50000000]"
      "Loaded (JDict [''webapp_url'' \<mapsto> PyStr ''https://foo''])" "[Open ''secrets.json'']"
      7 "PyStr ''https://foo''" 6120 "respond 200 []" "[0x30000000]" 4072 "[]" Missing "respond 404 []"]
  by (simp add: run_eval py_int_eval str_eval requests_made_def respond_def)

lemma digit_char_not_LF: "d < 10 \<Longrightarrow> digit_char d \<noteq> CHR 0x0A"
proof
  assume d: "d < 10" and "digit_char d = CHR 0x0A"
  then have "(of_char (char_of (48 + d)) :: nat) = of_char (CHR 0x0A)"
    by (simp add: digit_char_def)
  with d show False
    by (simp add: of_char_of)
qed

lemma str_nat_no_LF: "CHR 0x0A \<notin> set (str_nat n)"
proof (induction n rule: str_nat.induct)
  case (1 n)
  show ?case
  proof (cases "n < 10")
    case True
    then show ?thesis
      using digit_char_not_LF [of n] by (simp add: str_nat_digit)
  next
    case False
    then have "CHR 0x0A \<notin> set (str_nat (n div 10))"
      by (rule "1.IH")
    moreover have "digit_char (n mod 10) \<noteq> CHR 0x0A"
      by (rule digit_char_not_LF) simp
    ultimately show ?thesis
      using False by (simp add: str_nat_step)
  qed
qed

lemma str_int_no_LF: "CHR 0x0A \<notin> set (str_int i)"
  by (simp add: str_int_def str_nat_no_LF)

lemma line_count_append: "line_count (s @ t) = line_count s + line_count t"
  by (simp add: line_count_def)

lemma line_count_0: "CHR 0x0A \<notin> set s \<Longrightarrow> line_count s = 0"
  by (induction s) (auto simp: line_count_def)

lemma line_count_report:
  "line_count (report c (url_query u c n)) = Suc (line_count (format u))"
proof -
  have "line_count (str_int c) = 0" and "line_count (str_int n) = 0"
    by (simp_all add: line_count_0 str_int_no_LF)
  then show ?thesis
    by (simp add: report_def url_query_def MAC_def line_count_append) (simp add: line_count_def)
qed

text \<open>
  C9, as stated, fails: the base URL is taken as it is given, and one that begins with
  a line feed (which \<^verbatim>\<open>requests\<close> strips before sending) makes the one \<^verbatim>\<open>print\<close>
  write two lines, the colour on the first and the request URL on the second.
\<close>

theorem one_line_counterexample:
  "main \<lparr>color = Some ''3'', url = Some ''\<newline>http://h/x''\<rparr> [0x30000000] Missing (respond 200 ''ok'') =
     Some \<lparr>events =
       [Get ''\<newline>http://h/x?fc=3.4072.02:01:20:22:ADMIN'',
        Print ''Admin changed color to 3 using request \<newline>http://h/x?fc=3.4072.02:01:20:22:ADMIN\<newline>''],
       raised = None\<rparr> \<and>
   line_count (stdout (the (main \<lparr>color = Some ''3'', url = Some ''\<newline>http://h/x''\<rparr> [0x30000000]
     Missing (respond 200 ''ok'')))) = 2"
  by (simp add: run_eval py_int_eval str_eval respond_def stdout_def line_count_def)

text \<open>
  C9, amended. When the GET returns a response, whatever its status and body, the
  run ends without an exception and has made exactly one \<^verbatim>\<open>print\<close>: standard output
  is the text \<^verbatim>\<open>Admin changed color to <color> using request <request URL>\<close> and a
  line feed. The outcome is the same for every response. The output is one line
  whenever the base URL has no line feed in it.
\<close>

theorem report_printed:
  assumes "resolve argv rs secrets = Some (evs, Inr (c, u, n))"
    and "requests_get (url_query u c n) = Response status body"
  shows "\<exists>out. main argv rs secrets requests_get = Some out \<and> raised out = None \<and>
           exit_code out = 0 \<and> requests_made out = [url_query u c n] \<and>
           [t. Print t \<leftarrow> events out] = [stdout out] \<and>
           stdout out =
             ''Admin changed color to '' @ str_int c @ '' using request '' @ url_query u c n @ [CHR 0x0A] \<and>
           (\<forall>requests_get' status' body'. requests_get' (url_query u c n) = Response status' body' \<longrightarrow>
              main argv rs secrets requests_get' = Some out) \<and>
           (CHR 0x0A \<notin> set (format u) \<longrightarrow> line_count (stdout out) = 1)"
proof -
  let ?q = "url_query u c n"
  let ?out = "\<lparr>events = evs @ [Get ?q, Print (report c ?q)], raised = None\<rparr>"
  have run: "main argv rs secrets g = Some ?out" if "g ?q = Response st b" for g st b
    using main_resolved [OF assms(1), of g] that by simp
  have evs: "evs = [] \<or> evs = [Open ''secrets.json'']"
    using assms(1) by (rule resolve_events)
  then have out: "stdout ?out = report c ?q" "requests_made ?out = [?q]"
    "[t. Print t \<leftarrow> events ?out] = [report c ?q]"
    by (auto simp: stdout_def requests_made_def)
  have "line_count (stdout ?out) = 1" if "CHR 0x0A \<notin> set (format u)"
    using that by (simp add: out line_count_report line_count_0)
  moreover have "\<forall>g st b. g ?q = Response st b \<longrightarrow> main argv rs secrets g = Some ?out"
    using run by blast
  ultimately show ?thesis
    using run [of requests_get status body, OF assms(2)] out by (simp add: exit_code_def report_def)
qed

theorem report_printed_witness:
  "resolve \<lparr>color = Some ''3'', url = Some ''https://example.com/x''\<rparr> [0x30000000] Missing =
     Some ([], Inr (3, PyStr ''https://example.com/x'', 4072)) \<and>
   stdout (the (main \<lparr>color = Some ''3'', url = Some ''https://example.com/x''\<rparr> [0x30000000] Missing
     (respond 500 ''error''))) =
     ''Admin changed color to 3 using request https://example.com/x?fc=3.4072.02:01:20:22:ADMIN\<newline>'' \<and>
   line_count (stdout (the (main \<lparr>color = Some ''3'', url = Some ''https://example.com/x''\<rparr>
     [0x30000000] Missing (respond 500 ''error'')))) = 1"
  using report_printed [of "\<lparr>color = Some ''3'', url = Some ''https://example.com/x''\<rparr>"
      "[0x30000000]" Missing "[]" 3 "PyStr ''https://example.com/x''" 4072 "respond 500 ''error''"
      500 "''error''"]
  by (simp add: run_eval py_int_eval str_eval respond_def stdout_def line_count_def)

section \<open>Runs that end\<close>

text \<open>
  The run has no outcome only when one of its two draws runs out of generator words:
  once the colour is resolved and the state left holds a word whose top fourteen bits
  are below 9000, the run ends, with an exception or normally.
\<close>

theorem run_ends:
  assumes "parse_color argv rs = Some (x, rs1)"
    and "\<exists>w\<in>set rs1. unat (drop_bit 18 w) < 9000"
  shows "\<exists>out. main argv rs secrets requests_get = Some out"
proof -
  from randint_nonce_returns [OF assms(2)] obtain n rs2 where
    "randint 1000 9999 rs1 = Some (Inr n, rs2)"
    by blast
  with assms(1) show ?thesis
    by (auto simp: main_def resolve_unfold Let_def
        split: sum.splits prod.splits http_result.splits)
qed

theorem run_ends_witness:
  "parse_color \<lparr>color = None, url = None\<rparr> [0xF0000000, 0x30000000, 0xFFFFFFFF, 0x50000000] =
     Some (Inr 3, [0xFFFFFFFF, 0x50000000]) \<and>
   unat (drop_bit 18 (0x50000000 :: 32 word)) < 9000 \<and>
   (\<exists>out. main \<lparr>color = None, url = None\<rparr> [0xF0000000, 0x30000000, 0xFFFFFFFF, 0x50000000]
      Unreadable (respond 200 []) = Some out)"
  using run_ends [of "\<lparr>color = None, url = None\<rparr>" "[0xF0000000, 0x30000000, 0xFFFFFFFF, 0x50000000]"
      "Inr 3" "[0xFFFFFFFF, 0x50000000]" Unreadable "respond 200 []"]
  by (simp add: parse_color_def N_COLOR_def randint_color_Cons)

end
